theory Spec2Isabelle
  imports Main
begin

section \<open>Python values\<close>

text \<open>
  A Python \<open>str\<close> is a sequence of Unicode code points; it is modelled as a list of
  code points, so that \<open>str.strip()\<close> sees the same characters the interpreter does.
  ASCII literals of the source are written through \<open>py\<close>.
\<close>

type_synonym py_str = "nat list"

definition py :: "string \<Rightarrow> py_str" where
  "py s = map of_char s"

text \<open>
  \<open>str.isspace\<close> for one code point: U+0009..U+000D, U+001C..U+0020, U+0085, U+00A0,
  U+1680, U+2000..U+200A, U+2028, U+2029, U+202F, U+205F, U+3000.
\<close>

definition py_isspace :: "nat \<Rightarrow> bool" where
  "py_isspace c \<longleftrightarrow>
     (9 \<le> c \<and> c \<le> 13) \<or> (28 \<le> c \<and> c \<le> 32) \<or> c = 133 \<or> c = 160 \<or> c = 5760 \<or>
     (8192 \<le> c \<and> c \<le> 8202) \<or> c = 8232 \<or> c = 8233 \<or> c = 8239 \<or> c = 8287 \<or>
     c = 12288"

text \<open>\<open>s.strip()\<close>: leading and trailing whitespace removed.\<close>

definition strip :: "py_str \<Rightarrow> py_str" where
  "strip s = rev (dropWhile py_isspace (rev (dropWhile py_isspace s)))"

text \<open>
  Exceptions: the class, the text \<open>str(e)\<close> gives, and \<open>__cause__\<close> (set by
  \<open>raise ... from ...\<close>). Only subclasses of \<open>Exception\<close> are modelled; every
  \<open>except\<close> clause of the source is \<open>except Exception\<close>.
\<close>

datatype exc_class =
  Exception | RuntimeError | IntegrityError | AttributeError | TypeError | OverflowError

datatype py_exception =
  PyException (exc_type: exc_class) (exc_str: py_str) (exc_cause: "py_exception option")

section \<open>Database (app/database/connection.py)\<close>

text \<open>
  The two tables of \<open>_init_schema\<close>. \<open>created_at\<close> is \<open>CURRENT_TIMESTAMP\<close>, a
  reading of the wall clock in whole seconds; each insert takes that reading as the
  argument \<open>now\<close>. Row identifiers and Telegram identifiers are Python integers.
\<close>

record user_row =
  u_id :: int
  u_telegram_id :: int
  u_username :: "py_str option"
  u_created_at :: nat

record message_row =
  m_id :: int
  m_user_id :: int
  m_role :: py_str
  m_content :: py_str
  m_created_at :: nat

text \<open>
  The connection: the \<open>_is_connected\<close> flag, both tables in rowid order, the
  \<open>sqlite_sequence\<close> counters kept for \<open>AUTOINCREMENT\<close>, and the connection's
  \<open>last_insert_rowid()\<close>.
\<close>

record database =
  is_connected :: bool
  users_tbl :: "user_row list"
  messages_tbl :: "message_row list"
  users_seq :: int
  messages_seq :: int
  last_insert_rowid :: int

text \<open>\<open>get_connection\<close> raises when the database is not connected.\<close>

definition not_connected :: py_exception where
  "not_connected = PyException RuntimeError (py ''Database not connected'') None"

definition integrity_error :: "string \<Rightarrow> py_exception" where
  "integrity_error what = PyException IntegrityError (py what) None"

text \<open>
  \<open>sqlite3\<close> binds a Python integer as a 64-bit signed integer and raises
  \<open>OverflowError\<close> for one outside that range. The model raises it in the history
  query, whose limit is chosen by the caller; the other statements bind Telegram
  identifiers and rowids, which fit, and are modelled without it.
\<close>

definition fits_int64 :: "int \<Rightarrow> bool" where
  "fits_int64 n \<longleftrightarrow> - (2 ^ 63) \<le> n \<and> n < 2 ^ 63"

definition overflow_error :: py_exception where
  "overflow_error =
     PyException OverflowError (py ''Python int too large to convert to SQLite INTEGER'') None"

text \<open>
  \<open>INTEGER PRIMARY KEY AUTOINCREMENT\<close>: the new rowid is one more than the largest
  rowid the table has ever held.
\<close>

definition next_rowid :: "int \<Rightarrow> int list \<Rightarrow> int" where
  "next_rowid seq ids = 1 + foldr max ids (max seq 0)"

text \<open>\<open>SELECT * FROM users WHERE telegram_id = ?\<close> through \<open>fetch_one\<close>.\<close>

definition select_user_by_telegram_id :: "database \<Rightarrow> int \<Rightarrow> py_exception + user_row option" where
  "select_user_by_telegram_id db telegram_id =
     (if \<not> is_connected db then Inl not_connected
      else Inr (find (\<lambda>u. u_telegram_id u = telegram_id) (users_tbl db)))"

text \<open>
  \<open>INSERT INTO users (telegram_id, username) VALUES (?, ?)\<close> through \<open>execute\<close>:
  \<open>telegram_id\<close> is \<open>UNIQUE\<close>; a failed statement is rolled back and re-raised.
\<close>

definition insert_user :: "database \<Rightarrow> int \<Rightarrow> py_str option \<Rightarrow> nat \<Rightarrow> py_exception + database" where
  "insert_user db telegram_id username now =
     (if \<not> is_connected db then Inl not_connected
      else if \<exists>u \<in> set (users_tbl db). u_telegram_id u = telegram_id
        then Inl (integrity_error ''UNIQUE constraint failed: users.telegram_id'')
      else
        let new_id = next_rowid (users_seq db) (map u_id (users_tbl db)) in
        Inr (db\<lparr>users_tbl := users_tbl db @
                     [\<lparr>u_id = new_id, u_telegram_id = telegram_id,
                       u_username = username, u_created_at = now\<rparr>],
                 users_seq := new_id, last_insert_rowid := new_id\<rparr>))"

text \<open>\<open>SELECT * FROM users WHERE id = ?\<close> through \<open>fetch_one\<close>.\<close>

definition select_user_by_id :: "database \<Rightarrow> int \<Rightarrow> py_exception + user_row option" where
  "select_user_by_id db user_id =
     (if \<not> is_connected db then Inl not_connected
      else Inr (find (\<lambda>u. u_id u = user_id) (users_tbl db)))"

text \<open>
  \<open>UPDATE users SET username = ? WHERE telegram_id = ?\<close> through \<open>execute\<close>; the
  cursor's \<open>rowcount\<close> is the number of rows matched.
\<close>

definition update_user_username :: "database \<Rightarrow> py_str \<Rightarrow> int \<Rightarrow> py_exception + (int \<times> database)" where
  "update_user_username db username telegram_id =
     (if \<not> is_connected db then Inl not_connected
      else Inr (int (length (filter (\<lambda>u. u_telegram_id u = telegram_id) (users_tbl db))),
                db\<lparr>users_tbl :=
                     map (\<lambda>u. if u_telegram_id u = telegram_id
                               then u\<lparr>u_username := Some username\<rparr> else u)
                       (users_tbl db)\<rparr>))"

text \<open>
  \<open>INSERT INTO messages (user_id, role, content) VALUES (?, ?, ?)\<close>: the \<open>CHECK\<close>
  on \<open>role\<close> is enforced; the foreign key is not (SQLite leaves foreign keys off
  unless the connection enables them, and \<open>connect\<close> does not).
\<close>

definition insert_message :: "database \<Rightarrow> int \<Rightarrow> py_str \<Rightarrow> py_str \<Rightarrow> nat \<Rightarrow> py_exception + database" where
  "insert_message db user_id role content now =
     (if \<not> is_connected db then Inl not_connected
      else if role \<noteq> py ''user'' \<and> role \<noteq> py ''assistant''
        then Inl (integrity_error ''CHECK constraint failed: role'')
      else
        let new_id = next_rowid (messages_seq db) (map m_id (messages_tbl db)) in
        Inr (db\<lparr>messages_tbl := messages_tbl db @
                     [\<lparr>m_id = new_id, m_user_id = user_id, m_role = role,
                       m_content = content, m_created_at = now\<rparr>],
                 messages_seq := new_id, last_insert_rowid := new_id\<rparr>))"

text \<open>\<open>SELECT * FROM messages WHERE id = last_insert_rowid()\<close> through \<open>fetch_one\<close>.\<close>

definition select_last_inserted_message :: "database \<Rightarrow> py_exception + message_row option" where
  "select_last_inserted_message db =
     (if \<not> is_connected db then Inl not_connected
      else Inr (find (\<lambda>m. m_id m = last_insert_rowid db) (messages_tbl db)))"

text \<open>
  \<open>LIMIT ?\<close>: SQLite puts no upper bound on the rows when the limit is negative.
\<close>

definition sql_limit :: "int \<Rightarrow> 'a list \<Rightarrow> 'a list" where
  "sql_limit n rows = (if n < 0 then rows else take (nat n) rows)"

text \<open>
  \<open>SELECT role, content, created_at FROM messages WHERE user_id = ? ORDER BY
  created_at DESC LIMIT ?\<close> through \<open>fetch_all\<close>. Both parameters are bound as
  64-bit integers. The rows come in descending order of \<open>created_at\<close>; rows with
  equal \<open>created_at\<close> (the clock counts whole seconds) come as SQLite returns them
  with the indexes of the schema, in rowid order, the earlier rowid first. The sort
  below is stable, so sorting the reversed table and reversing the result gives
  exactly this order.
\<close>

record history_row =
  h_role :: py_str
  h_content :: py_str
  h_created_at :: nat

definition history_of :: "message_row \<Rightarrow> history_row" where
  "history_of m = \<lparr>h_role = m_role m, h_content = m_content m, h_created_at = m_created_at m\<rparr>"

definition select_history :: "database \<Rightarrow> int \<Rightarrow> int \<Rightarrow> py_exception + history_row list" where
  "select_history db user_id limit =
     (if \<not> is_connected db then Inl not_connected
      else if \<not> fits_int64 user_id \<or> \<not> fits_int64 limit then Inl overflow_error
      else Inr (sql_limit limit
             (map history_of
                (rev (sort_key m_created_at
                        (rev (filter (\<lambda>m. m_user_id m = user_id) (messages_tbl db))))))))"

text \<open>\<open>SELECT COUNT(*) as count FROM messages WHERE user_id = ?\<close>: always one row.\<close>

definition select_count :: "database \<Rightarrow> int \<Rightarrow> py_exception + int option" where
  "select_count db user_id =
     (if \<not> is_connected db then Inl not_connected
      else Inr (Some (int (length (filter (\<lambda>m. m_user_id m = user_id) (messages_tbl db))))))"

text \<open>
  \<open>DELETE FROM messages WHERE user_id = ?\<close> through \<open>execute\<close>; the cursor's
  \<open>rowcount\<close> is the number of rows deleted.
\<close>

definition delete_messages :: "database \<Rightarrow> int \<Rightarrow> py_exception + (int \<times> database)" where
  "delete_messages db user_id =
     (if \<not> is_connected db then Inl not_connected
      else Inr (int (length (filter (\<lambda>m. m_user_id m = user_id) (messages_tbl db))),
                db\<lparr>messages_tbl := filter (\<lambda>m. m_user_id m \<noteq> user_id) (messages_tbl db)\<rparr>))"

section \<open>Repositories (app/database/repository.py)\<close>

text \<open>
  The repository's \<open>logger.debug\<close> and \<open>logger.info\<close> lines return nothing and
  decide nothing; they are left out of the model.
\<close>

definition get_or_create_user ::
  "database \<Rightarrow> int \<Rightarrow> py_str option \<Rightarrow> nat \<Rightarrow> py_exception + (user_row option \<times> database)" where
  "get_or_create_user db telegram_id username now =
     (case select_user_by_telegram_id db telegram_id of
        Inl e \<Rightarrow> Inl e
      | Inr (Some user) \<Rightarrow> Inr (Some user, db)
      | Inr None \<Rightarrow>
          (case insert_user db telegram_id username now of
             Inl e \<Rightarrow> Inl e
           | Inr db' \<Rightarrow>
               (case select_user_by_telegram_id db' telegram_id of
                  Inl e \<Rightarrow> Inl e
                | Inr user \<Rightarrow> Inr (user, db'))))"

definition get_user_by_id :: "database \<Rightarrow> int \<Rightarrow> py_exception + user_row option" where
  "get_user_by_id db user_id = select_user_by_id db user_id"

definition update_username :: "database \<Rightarrow> int \<Rightarrow> py_str \<Rightarrow> py_exception + (bool \<times> database)" where
  "update_username db telegram_id username =
     (case update_user_username db username telegram_id of
        Inl e \<Rightarrow> Inl e
      | Inr (rowcount, db') \<Rightarrow> Inr (rowcount > 0, db'))"

definition create_message ::
  "database \<Rightarrow> int \<Rightarrow> py_str \<Rightarrow> py_str \<Rightarrow> nat \<Rightarrow> py_exception + (message_row option \<times> database)" where
  "create_message db user_id role content now =
     (case insert_message db user_id role content now of
        Inl e \<Rightarrow> Inl e
      | Inr db' \<Rightarrow>
          (case select_last_inserted_message db' of
             Inl e \<Rightarrow> Inl e
           | Inr message \<Rightarrow> Inr (message, db')))"

definition get_conversation_history :: "database \<Rightarrow> int \<Rightarrow> int \<Rightarrow> py_exception + history_row list" where
  "get_conversation_history db user_id limit = select_history db user_id limit"

definition get_message_count :: "database \<Rightarrow> int \<Rightarrow> py_exception + int" where
  "get_message_count db user_id =
     (case select_count db user_id of
        Inl e \<Rightarrow> Inl e
      | Inr result \<Rightarrow> Inr (case result of Some count \<Rightarrow> count | None \<Rightarrow> 0))"

definition clear_conversation :: "database \<Rightarrow> int \<Rightarrow> py_exception + (bool \<times> database)" where
  "clear_conversation db user_id =
     (case delete_messages db user_id of
        Inl e \<Rightarrow> Inl e
      | Inr (rowcount, db') \<Rightarrow> Inr (rowcount > 0, db'))"

text \<open>The number of rows of the \<open>messages\<close> table that belong to one user.\<close>

definition count_for :: "database \<Rightarrow> int \<Rightarrow> nat" where
  "count_for db uid = length (filter (\<lambda>m. m_user_id m = uid) (messages_tbl db))"

text \<open>The connection right after \<open>connect\<close> on a new store: both tables empty.\<close>

definition fresh_db :: database where
  "fresh_db =
     \<lparr>is_connected = True, users_tbl = [], messages_tbl = [],
      users_seq = 0, messages_seq = 0, last_insert_rowid = 0\<rparr>"

text \<open>
  A connection with one user (internal id 1) holding two messages, and one message
  stored under the internal id 2.
\<close>

definition sample_db :: database where
  "sample_db =
     \<lparr>is_connected = True,
      users_tbl = [\<lparr>u_id = 1, u_telegram_id = 42, u_username = None, u_created_at = 5\<rparr>],
      messages_tbl =
        [\<lparr>m_id = 1, m_user_id = 1, m_role = py ''user'', m_content = py ''Hi'', m_created_at = 5\<rparr>,
         \<lparr>m_id = 2, m_user_id = 1, m_role = py ''assistant'', m_content = py ''Hello'', m_created_at = 6\<rparr>,
         \<lparr>m_id = 3, m_user_id = 2, m_role = py ''user'', m_content = py ''Yo'', m_created_at = 7\<rparr>],
      users_seq = 1, messages_seq = 3, last_insert_rowid = 3\<rparr>"

text \<open>
  A sequence of repository calls on one connection, run in order. A call that raises
  leaves the database as it was (the failed statement is rolled back).
\<close>

datatype repo_call =
  Append int py_str py_str nat
| History int int
| Count int
| Clear int
| GetOrCreate int "py_str option" nat
| GetUserById int
| UpdateUsername int py_str

fun apply_call :: "database \<Rightarrow> repo_call \<Rightarrow> database" where
  "apply_call db (Append user_id role content now) =
     (case create_message db user_id role content now of Inl e \<Rightarrow> db | Inr (message, db') \<Rightarrow> db')"
| "apply_call db (History user_id limit) =
     (case get_conversation_history db user_id limit of Inl e \<Rightarrow> db | Inr rows \<Rightarrow> db)"
| "apply_call db (Count user_id) =
     (case get_message_count db user_id of Inl e \<Rightarrow> db | Inr n \<Rightarrow> db)"
| "apply_call db (Clear user_id) =
     (case clear_conversation db user_id of Inl e \<Rightarrow> db | Inr (deleted, db') \<Rightarrow> db')"
| "apply_call db (GetOrCreate telegram_id username now) =
     (case get_or_create_user db telegram_id username now of Inl e \<Rightarrow> db | Inr (user, db') \<Rightarrow> db')"
| "apply_call db (GetUserById user_id) =
     (case get_user_by_id db user_id of Inl e \<Rightarrow> db | Inr user \<Rightarrow> db)"
| "apply_call db (UpdateUsername telegram_id username) =
     (case update_username db telegram_id username of Inl e \<Rightarrow> db | Inr (updated, db') \<Rightarrow> db')"

definition run_calls :: "database \<Rightarrow> repo_call list \<Rightarrow> database" where
  "run_calls db calls = foldl apply_call db calls"

text \<open>
  The number the specification gives for \<open>count\<close>: starting from \<open>n\<close>, one more for
  every \<open>append\<close> for the user that returns without raising, and back to zero at every
  \<open>clear\<close> for the user.
\<close>

fun appended_since_clear :: "int \<Rightarrow> database \<Rightarrow> nat \<Rightarrow> repo_call list \<Rightarrow> nat" where
  "appended_since_clear uid db n [] = n"
| "appended_since_clear uid db n (Append user_id role content now # calls) =
     appended_since_clear uid (apply_call db (Append user_id role content now))
       (if user_id = uid \<and> \<not> isl (create_message db user_id role content now) then Suc n else n)
       calls"
| "appended_since_clear uid db n (Clear user_id # calls) =
     appended_since_clear uid (apply_call db (Clear user_id))
       (if user_id = uid \<and> \<not> isl (clear_conversation db user_id) then 0 else n) calls"
| "appended_since_clear uid db n (call # calls) =
     appended_since_clear uid (apply_call db call) n calls"

text \<open>
  An \<open>append\<close> for the user that a connected database accepts: the role passes the
  \<open>CHECK\<close> of the table.
\<close>

fun successful_append :: "int \<Rightarrow> repo_call \<Rightarrow> bool" where
  "successful_append uid (Append user_id role content now) =
     (user_id = uid \<and> (role = py ''user'' \<or> role = py ''assistant''))"
| "successful_append uid call = False"

section \<open>Generation client (app/services/ai_service.py)\<close>

text \<open>An entry of the OpenAI-format message list: a dict with \<open>role\<close> and \<open>content\<close>.\<close>

record chat_message =
  cm_role :: py_str
  cm_content :: py_str

text \<open>
  What \<open>g4f.ChatCompletion.create\<close> gives for one model identifier and one message
  list: it raises (a timeout is raised too), or it returns a value, which may be a
  string, \<open>None\<close>, or another object. The loop calls it at most once for each
  identifier, so a function of the identifier covers every behaviour of one call of
  \<open>_call_g4f\<close>.
\<close>

datatype py_value = PyStr py_str | PyNone | PyObject

datatype attempt = Returns py_value | Raises py_exception

type_synonym backend = "py_str \<Rightarrow> chat_message list \<Rightarrow> attempt"

fun truthy :: "py_value \<Rightarrow> bool" where
  "truthy (PyStr s) = (s \<noteq> [])"
| "truthy PyNone = False"
| "truthy PyObject = True"

fun isinstance_str :: "py_value \<Rightarrow> bool" where
  "isinstance_str (PyStr s) = True"
| "isinstance_str v = False"

datatype log_level = DEBUG | INFO | WARNING | ERROR

type_synonym log_record = "log_level \<times> py_str"

text \<open>\<open>str(last_exception)\<close>, where \<open>last_exception\<close> may still be \<open>None\<close>.\<close>

fun str_of_last :: "py_exception option \<Rightarrow> py_str" where
  "str_of_last None = py ''None''"
| "str_of_last (Some e) = exc_str e"

definition available_models :: "py_str list" where
  "available_models = [py ''gpt-3.5-turbo'', py ''gpt-4'', py ''gpt-4-turbo'']"

text \<open>
  The result of \<open>_call_g4f\<close>: the text returned or the exception raised, the records
  written to the logger, and the calls made to the backend, both in order.
\<close>

type_synonym g4f_result =
  "(py_exception + py_str) \<times> log_record list \<times> (py_str \<times> chat_message list) list"

definition after_attempt ::
  "log_record list \<Rightarrow> py_str \<times> chat_message list \<Rightarrow> g4f_result \<Rightarrow> g4f_result" where
  "after_attempt records call r =
     (case r of (outcome, log, calls) \<Rightarrow> (outcome, records @ log, call # calls))"

text \<open>The \<open>for model in self.available_models\<close> loop and the \<open>raise\<close> after it.\<close>

fun try_models ::
  "backend \<Rightarrow> chat_message list \<Rightarrow> py_str list \<Rightarrow> py_exception option \<Rightarrow> g4f_result" where
  "try_models create messages [] last_exception =
     (let error_msg = py ''All AI models failed. Last error: '' @ str_of_last last_exception
      in (Inl (PyException Exception error_msg last_exception), [(ERROR, error_msg)], []))"
| "try_models create messages (model # rest) last_exception =
     (let trying = (DEBUG, py ''Trying model: '' @ model) in
      case create model messages of
        Returns response \<Rightarrow>
          (if truthy response \<and> isinstance_str response then
             (case response of
                PyStr s \<Rightarrow>
                  (Inr s,
                   [trying, (INFO, py ''Successfully generated response using '' @ model)],
                   [(model, messages)])
              | _ \<Rightarrow> after_attempt [trying] (model, messages)
                       (try_models create messages rest last_exception))
           else after_attempt [trying] (model, messages)
                  (try_models create messages rest last_exception))
      | Raises e \<Rightarrow>
          after_attempt
            [trying,
             (WARNING, py ''Model '' @ model @ py '' failed: '' @ take 100 (exc_str e))]
            (model, messages)
            (try_models create messages rest (Some e)))"

definition call_g4f :: "backend \<Rightarrow> chat_message list \<Rightarrow> g4f_result" where
  "call_g4f create messages = try_models create messages available_models None"

definition system_prompt :: py_str where
  "system_prompt =
     py ''You are a helpful AI assistant in a Telegram bot. '' @ [10] @
     py ''            Be concise, friendly, and helpful. '' @ [10] @
     py ''            Keep responses reasonably short for mobile users.''"

definition apology :: py_str where
  "apology =
     py ''I apologize, but I'' @ [39] @
     py ''m having trouble processing your request right now. '' @
     py ''Please try again in a moment. If the problem persists, '' @
     py ''the administrator has been notified.''"

text \<open>
  The message list \<open>generate_response\<close> builds: the system message, the history
  (\<open>if history\<close> skips both \<open>None\<close> and the empty list), the current message.
\<close>

definition build_messages :: "py_str \<Rightarrow> chat_message list option \<Rightarrow> chat_message list" where
  "build_messages message history =
     [\<lparr>cm_role = py ''system'', cm_content = system_prompt\<rparr>] @
     (case history of None \<Rightarrow> [] | Some h \<Rightarrow> if h \<noteq> [] then h else []) @
     [\<lparr>cm_role = py ''user'', cm_content = message\<rparr>]"

text \<open>
  \<open>generate_response\<close>: the text returned, the records logged and the backend calls
  made.
\<close>

definition generate_response ::
  "backend \<Rightarrow> py_str \<Rightarrow> chat_message list option \<Rightarrow>
     py_str \<times> log_record list \<times> (py_str \<times> chat_message list) list" where
  "generate_response create message history =
     (let messages = build_messages message history
      in case call_g4f create messages of
           (Inr response, log, calls) \<Rightarrow>
             (let response = strip response
              in (response,
                  log @ [(DEBUG, py ''Generated response: '' @ take 100 response @ py ''...'')],
                  calls))
         | (Inl e, log, calls) \<Rightarrow>
             (apology,
              log @ [(ERROR, py ''Failed to generate AI response: '' @ exc_str e)],
              calls))"

section \<open>Message handler (app/handlers/router.py)\<close>

record tg_user =
  tg_id :: int
  tg_username :: "py_str option"

record tg_message =
  msg_text :: "py_str option"
  from_user :: "tg_user option"
  chat_id :: int

text \<open>
  The transport is outside the repository: whether \<open>send_chat_action\<close> raises, and
  whether \<open>message.answer\<close> raises for a given text, are inputs.
\<close>

record transport =
  chat_action_raises :: "py_exception option"
  answer_raises :: "py_str \<Rightarrow> py_exception option"

datatype effect = SendChatAction int | Answer py_str

text \<open>The clock readings of the three inserts the handler may make.\<close>

record clock =
  now_user :: nat
  now_inbound :: nat
  now_reply :: nat

text \<open>
  What one run of the handler leaves behind: the exception it raised (if any), the
  database, the transport calls that returned, the records logged by the handler and
  the generation client, and the backend calls.
\<close>

record handler_result =
  r_raised :: "py_exception option"
  r_db :: database
  r_sent :: "effect list"
  r_log :: "log_record list"
  r_calls :: "(py_str \<times> chat_message list) list"

definition error_text :: py_str where
  "error_text =
     [9888, 65039] @ py '' <b>Sorry, I encountered an error processing your request.</b>'' @
     [10, 10] @ py ''Please try again in a moment. '' @
     py ''If the problem persists, contact the administrator.''"

definition attribute_error :: py_exception where
  "attribute_error =
     PyException AttributeError
       ([39] @ py ''NoneType'' @ [39] @ py '' object has no attribute '' @ [39] @ py ''id'' @ [39])
       None"

definition type_error :: py_exception where
  "type_error = PyException TypeError
       ([39] @ py ''NoneType'' @ [39] @ py '' object is not subscriptable'') None"

text \<open>The \<open>except Exception as e\<close> branch of the handler.\<close>

definition on_error ::
  "transport \<Rightarrow> py_exception \<Rightarrow> handler_result \<Rightarrow> handler_result" where
  "on_error tr e r =
     (let r' = r\<lparr>r_log := r_log r @ [(ERROR, py ''AI service error: '' @ exc_str e)]\<rparr>
      in case answer_raises tr error_text of
           Some e' \<Rightarrow> r'\<lparr>r_raised := Some e'\<rparr>
         | None \<Rightarrow> r'\<lparr>r_sent := r_sent r' @ [Answer error_text]\<rparr>)"

text \<open>The \<open>try\<close> block of the handler: generate, store the reply, send it.\<close>

definition reply ::
  "transport \<Rightarrow> backend \<Rightarrow> clock \<Rightarrow> database \<Rightarrow> int \<Rightarrow> py_str \<Rightarrow> chat_message list \<Rightarrow>
     effect list \<Rightarrow> handler_result" where
  "reply tr create clk db user_id txt formatted_history sent =
     (case generate_response create txt (Some formatted_history) of
        (ai_response, log, calls) \<Rightarrow>
          (let r = \<lparr>r_raised = None, r_db = db, r_sent = sent, r_log = log, r_calls = calls\<rparr>
           in case create_message db user_id (py ''assistant'') ai_response (now_reply clk) of
                Inl e \<Rightarrow> on_error tr e r
              | Inr (message, db') \<Rightarrow>
                  (case answer_raises tr ai_response of
                     Some e \<Rightarrow> on_error tr e (r\<lparr>r_db := db'\<rparr>)
                   | None \<Rightarrow> r\<lparr>r_db := db', r_sent := sent @ [Answer ai_response]\<rparr>)))"

definition message_handler ::
  "transport \<Rightarrow> backend \<Rightarrow> clock \<Rightarrow> database \<Rightarrow> tg_message \<Rightarrow> handler_result" where
  "message_handler tr create clk db message =
     (let r = \<lparr>r_raised = None, r_db = db, r_sent = [], r_log = [], r_calls = []\<rparr> in
      case msg_text message of
        None \<Rightarrow> r
      | Some txt \<Rightarrow>
          if txt = [] \<or> strip txt = [] then r
          else
            (case from_user message of
               None \<Rightarrow> r\<lparr>r_raised := Some attribute_error\<rparr>
             | Some sender \<Rightarrow>
                 (case get_or_create_user db (tg_id sender) (tg_username sender) (now_user clk) of
                    Inl e \<Rightarrow> r\<lparr>r_raised := Some e\<rparr>
                  | Inr (None, db1) \<Rightarrow> r\<lparr>r_raised := Some type_error, r_db := db1\<rparr>
                  | Inr (Some user, db1) \<Rightarrow>
                      (case create_message db1 (u_id user) (py ''user'') txt (now_inbound clk) of
                         Inl e \<Rightarrow> r\<lparr>r_raised := Some e, r_db := db1\<rparr>
                       | Inr (stored, db2) \<Rightarrow>
                           (case get_conversation_history db2 (u_id user) 10 of
                              Inl e \<Rightarrow> r\<lparr>r_raised := Some e, r_db := db2\<rparr>
                            | Inr history \<Rightarrow>
                                (let formatted_history =
                                       map (\<lambda>msg. \<lparr>cm_role = h_role msg, cm_content = h_content msg\<rparr>)
                                         (rev history)
                                 in case chat_action_raises tr of
                                      Some e \<Rightarrow> r\<lparr>r_raised := Some e, r_db := db2\<rparr>
                                    | None \<Rightarrow>
                                        reply tr create clk db2 (u_id user) txt formatted_history
                                          [SendChatAction (chat_id message)]))))))"

section \<open>Concrete inputs\<close>

text \<open>A backend that returns \<open>None\<close> for every model identifier.\<close>

definition backend_none :: backend where
  "backend_none model messages = Returns PyNone"

text \<open>A backend that returns the empty string for every model identifier.\<close>

definition backend_empty :: backend where
  "backend_empty model messages = Returns (PyStr [])"

text \<open>
  A backend whose first model returns \<open>None\<close> and whose other models answer
  \<open>Hello\<close>.
\<close>

definition backend_second :: backend where
  "backend_second model messages =
     (if model = py ''gpt-3.5-turbo'' then Returns PyNone else Returns (PyStr (py ''Hello'')))"

text \<open>A backend whose every model answers \<open>Hello!\<close> between blanks.\<close>

definition backend_hello :: backend where
  "backend_hello model messages = Returns (PyStr (py ''  Hello! '' @ [10]))"

text \<open>A backend whose first model times out and whose other models answer.\<close>

definition backend_timeout :: backend where
  "backend_timeout model messages =
     (if model = py ''gpt-3.5-turbo''
      then Raises (PyException Exception (py ''Request timed out'') None)
      else Returns (PyStr (py ''Hello'')))"

text \<open>A transport on which every call returns.\<close>

definition transport_ok :: transport where
  "transport_ok = \<lparr>chat_action_raises = None, answer_raises = (\<lambda>t. None)\<rparr>"

text \<open>The text \<open>Hi\<close> sent by the Telegram account 42 in the chat 7.\<close>

definition hi_message :: tg_message where
  "hi_message =
     \<lparr>msg_text = Some (py ''Hi''),
      from_user = Some \<lparr>tg_id = 42, tg_username = Some (py ''ann'')\<rparr>,
      chat_id = 7\<rparr>"

text \<open>A message whose text is a space, a newline, U+3000 and a tab.\<close>

definition blank_message :: tg_message where
  "blank_message =
     \<lparr>msg_text = Some [32, 10, 12288, 9],
      from_user = Some \<lparr>tg_id = 42, tg_username = None\<rparr>,
      chat_id = 7\<rparr>"

text \<open>
  One user whose two messages, the inbound text and the reply, were stored within the
  same second.
\<close>

definition same_second_db :: database where
  "same_second_db =
     run_calls fresh_db
       [GetOrCreate 42 None 100,
        Append 1 (py ''user'') (py ''Hi'') 100,
        Append 1 (py ''assistant'') (py ''Hello!'') 100]"

text \<open>A clock whose three readings fall in the same second.\<close>

definition same_second_clock :: clock where
  "same_second_clock = \<lparr>now_user = 100, now_inbound = 100, now_reply = 100\<rparr>"

text \<open>A second text, \<open>Again\<close>, from the same Telegram account.\<close>

definition again_message :: tg_message where
  "again_message =
     \<lparr>msg_text = Some (py ''Again''),
      from_user = Some \<lparr>tg_id = 42, tg_username = Some (py ''ann'')\<rparr>,
      chat_id = 7\<rparr>"

definition sample_clock :: clock where
  "sample_clock = \<lparr>now_user = 100, now_inbound = 100, now_reply = 103\<rparr>"

section \<open>Properties of the repositories\<close>

subsection \<open>Lookups and fresh row identifiers\<close>

lemma next_rowid_fresh: "i \<in> set ids \<Longrightarrow> i < next_rowid seq ids"
  unfolding next_rowid_def by (induction ids) auto

lemma find_None_append:
  "find P xs = None \<Longrightarrow> find P (xs @ [x]) = (if P x then Some x else None)"
  by (induction xs) (auto split: if_splits)



subsection \<open>The user directory\<close>


lemma get_or_create_user_new:
  assumes "is_connected db" and "find (\<lambda>u. u_telegram_id u = tid) (users_tbl db) = None"
    and "u = \<lparr>u_id = next_rowid (users_seq db) (map u_id (users_tbl db)), u_telegram_id = tid,
                  u_username = name, u_created_at = t\<rparr>"
  shows "get_or_create_user db tid name t =
           Inr (Some u, db\<lparr>users_tbl := users_tbl db @ [u], users_seq := u_id u,
                           last_insert_rowid := u_id u\<rparr>)"
proof -
  from assms(2) have no: "\<not> (\<exists>r \<in> set (users_tbl db). u_telegram_id r = tid)"
    by (simp add: find_None_iff)
  show ?thesis
    using assms no
    by (simp add: get_or_create_user_def select_user_by_telegram_id_def insert_user_def Let_def
        find_None_append)
qed




subsection \<open>The conversation log\<close>



lemma sorted_wrt_take_ge: "sorted_wrt P xs \<Longrightarrow> sorted_wrt P (take n xs)"
  by (metis append_take_drop_id sorted_wrt_append)

lemma newest_first:
  "sorted_wrt (\<ge>) (map h_created_at (map history_of (rev (sort_key m_created_at ms))))"
proof -
  have "map h_created_at (map history_of (rev (sort_key m_created_at ms))) =
        rev (map m_created_at (sort_key m_created_at ms))"
    by (simp add: rev_map history_of_def comp_def)
  moreover have "sorted (map m_created_at (sort_key m_created_at ms))"
    by (rule sorted_sort_key)
  ultimately show ?thesis
    by (simp add: sorted_wrt_rev)
qed

text \<open>
  On a connected database and for parameters that fit 64 bits, the rows are
  projections of messages of the user, as many as the limit allows, in descending
  order of \<open>created_at\<close>.
\<close>

lemma history_rows:
  assumes "is_connected db" and "fits_int64 uid" and "fits_int64 limit"
  shows "\<exists>rows.
           get_conversation_history db uid limit = Inr rows \<and>
           length rows = (if limit < 0 then count_for db uid else min (nat limit) (count_for db uid)) \<and>
           sorted_wrt (\<ge>) (map h_created_at rows) \<and>
           sorted (map h_created_at (rev rows)) \<and>
           set rows \<subseteq> history_of ` {m \<in> set (messages_tbl db). m_user_id m = uid}"
proof -
  let ?all = "map history_of (rev (sort_key m_created_at
                (rev (filter (\<lambda>m. m_user_id m = uid) (messages_tbl db)))))"
  let ?rows = "sql_limit limit ?all"
  have res: "get_conversation_history db uid limit = Inr ?rows"
    using assms by (simp add: get_conversation_history_def select_history_def)
  have len: "length ?rows =
      (if limit < 0 then count_for db uid else min (nat limit) (count_for db uid))"
    by (simp add: sql_limit_def count_for_def min.commute)
  have "sorted_wrt (\<ge>) (map h_created_at ?all)"
    by (rule newest_first)
  then have desc: "sorted_wrt (\<ge>) (map h_created_at ?rows)"
    by (simp add: sql_limit_def take_map [symmetric] sorted_wrt_take_ge del: map_map)
  then have asc: "sorted (map h_created_at (rev ?rows))"
    by (simp only: rev_map [symmetric] sorted_wrt_rev)
  have "set ?rows \<subseteq> set ?all"
    by (auto simp: sql_limit_def dest: in_set_takeD)
  then have sub: "set ?rows \<subseteq> history_of ` {m \<in> set (messages_tbl db). m_user_id m = uid}"
    by auto
  from res len desc asc sub show ?thesis
    by blast
qed

text \<open>For a limit from 0 to \<open>2^63 - 1\<close> the rows are at most as many as the limit.\<close>

lemma history_within_limit:
  assumes "is_connected db" and "fits_int64 uid" and "0 \<le> limit" and "limit < 2 ^ 63"
  shows "\<exists>rows.
           get_conversation_history db uid limit = Inr rows \<and>
           int (length rows) \<le> limit \<and>
           length rows = min (nat limit) (count_for db uid) \<and>
           set rows \<subseteq> history_of ` {m \<in> set (messages_tbl db). m_user_id m = uid} \<and>
           sorted_wrt (\<ge>) (map h_created_at rows) \<and>
           sorted (map h_created_at (rev rows))"
proof -
  from assms(3,4) have "fits_int64 limit"
    by (simp add: fits_int64_def)
  from history_rows [OF assms(1,2) this] obtain rows where
    rows: "get_conversation_history db uid limit = Inr rows"
      "length rows = (if limit < 0 then count_for db uid else min (nat limit) (count_for db uid))"
      "sorted_wrt (\<ge>) (map h_created_at rows)" "sorted (map h_created_at (rev rows))"
      "set rows \<subseteq> history_of ` {m \<in> set (messages_tbl db). m_user_id m = uid}"
    by blast
  from rows(2) assms(3) have "length rows = min (nat limit) (count_for db uid)"
    by simp
  moreover from this assms(3) have "int (length rows) \<le> limit"
    by simp
  ultimately show ?thesis
    using rows(1,3,4,5) by blast
qed

text \<open>A limit or a user id outside 64 bits raises.\<close>

lemma history_overflow:
  "is_connected db \<Longrightarrow> \<not> fits_int64 uid \<or> \<not> fits_int64 limit \<Longrightarrow>
     get_conversation_history db uid limit = Inl overflow_error"
  by (simp add: get_conversation_history_def select_history_def)

lemma same_second_db_eq:
  "same_second_db =
     \<lparr>is_connected = True,
      users_tbl = [\<lparr>u_id = 1, u_telegram_id = 42, u_username = None, u_created_at = 100\<rparr>],
      messages_tbl =
        [\<lparr>m_id = 1, m_user_id = 1, m_role = py ''user'', m_content = py ''Hi'',
          m_created_at = 100\<rparr>,
         \<lparr>m_id = 2, m_user_id = 1, m_role = py ''assistant'', m_content = py ''Hello!'',
          m_created_at = 100\<rparr>],
      users_seq = 1, messages_seq = 2, last_insert_rowid = 2\<rparr>"
  by (simp add: same_second_db_def run_calls_def fresh_db_def get_or_create_user_def
      select_user_by_telegram_id_def insert_user_def create_message_def insert_message_def
      select_last_inserted_message_def next_rowid_def Let_def py_def)

text \<open>
  C5. The claim: \<open>history(user_id, limit=N)\<close> returns at most \<open>N\<close> rows, newest
  first, and the reversed sequence is in the order of creation. The bound, the owner
  of the rows and the order of the \<open>created_at\<close> values are \<open>history_rows\<close> and
  \<open>history_within_limit\<close>. The order of creation is lost when two messages of a
  user are stored within the same second: \<open>created_at\<close> does not tell them apart and
  they come back in rowid order. After \<open>Hi\<close> and then \<open>Hello!\<close> are appended in the
  second 100, the limit 1 returns \<open>Hi\<close>, the older message, and the limit 10 returns
  \<open>Hi\<close> before \<open>Hello!\<close>, oldest first, so that the reversed sequence is newest
  first.
\<close>

theorem history_same_second_oldest_first:
  "map m_content (messages_tbl same_second_db) = [py ''Hi'', py ''Hello!''] \<and>
   get_conversation_history same_second_db 1 1 =
     Inr [\<lparr>h_role = py ''user'', h_content = py ''Hi'', h_created_at = 100\<rparr>] \<and>
   get_conversation_history same_second_db 1 10 =
     Inr [\<lparr>h_role = py ''user'', h_content = py ''Hi'', h_created_at = 100\<rparr>,
          \<lparr>h_role = py ''assistant'', h_content = py ''Hello!'', h_created_at = 100\<rparr>] \<and>
   rev [\<lparr>h_role = py ''user'', h_content = py ''Hi'', h_created_at = 100\<rparr>,
        \<lparr>h_role = py ''assistant'', h_content = py ''Hello!'', h_created_at = 100\<rparr>] =
     [\<lparr>h_role = py ''assistant'', h_content = py ''Hello!'', h_created_at = 100\<rparr>,
      \<lparr>h_role = py ''user'', h_content = py ''Hi'', h_created_at = 100\<rparr>]"
  by (simp add: same_second_db_eq get_conversation_history_def select_history_def
      sql_limit_def history_of_def fits_int64_def)

subsection \<open>Counting messages over a sequence of calls\<close>

lemma apply_call_connected: "is_connected (apply_call db c) = is_connected db"
  by (cases c)
    (auto simp: create_message_def insert_message_def select_last_inserted_message_def
      clear_conversation_def delete_messages_def get_or_create_user_def insert_user_def
      select_user_by_telegram_id_def update_username_def update_user_username_def Let_def
      split: sum.splits option.splits prod.splits if_splits)







text \<open>
  Without a \<open>clear\<close> for the user, the number is the starting count plus the number
  of accepted appends for the user.
\<close>

lemma create_message_raises_iff:
  "is_connected db \<Longrightarrow>
     isl (create_message db user_id role content now) \<longleftrightarrow>
       \<not> (role = py ''user'' \<or> role = py ''assistant'')"
  by (auto simp: create_message_def insert_message_def select_last_inserted_message_def Let_def
      split: sum.splits)

lemma appended_without_clear:
  "is_connected db \<Longrightarrow> Clear uid \<notin> set calls \<Longrightarrow>
     appended_since_clear uid db n calls = n + length (filter (successful_append uid) calls)"
proof (induction calls arbitrary: db n)
  case Nil
  then show ?case by simp
next
  case (Cons c cs)
  have conn: "is_connected (apply_call db c)"
    using Cons.prems(1) by (simp add: apply_call_connected)
  have rest: "Clear uid \<notin> set cs"
    using Cons.prems(2) by simp
  note ih = Cons.IH [OF conn rest]
  show ?case
  proof (cases c)
    case (Append user_id role content now)
    then show ?thesis
      using ih Cons.prems(1) by (simp add: create_message_raises_iff)
  next
    case (Clear user_id)
    then show ?thesis
      using ih Cons.prems(2) by simp
  qed (use ih in simp_all)
qed



section \<open>Properties of the generation client\<close>

subsection \<open>One step of the fallback loop\<close>

lemma after_attempt_sel [simp]:
  "fst (after_attempt records call r) = fst r"
  "fst (snd (after_attempt records call r)) = records @ fst (snd r)"
  "snd (snd (after_attempt records call r)) = call # snd (snd r)"
  by (simp_all add: after_attempt_def split: prod.splits)

lemma try_models_nontext:
  "create model messages = Returns r \<Longrightarrow> \<not> (truthy r \<and> isinstance_str r) \<Longrightarrow>
     try_models create messages (model # rest) lst =
       after_attempt [(DEBUG, py ''Trying model: '' @ model)] (model, messages)
         (try_models create messages rest lst)"
  by (cases r) (simp_all add: Let_def)

lemma try_models_text:
  "create model messages = Returns (PyStr s) \<Longrightarrow> s \<noteq> [] \<Longrightarrow>
     try_models create messages (model # rest) lst =
       (Inr s,
        [(DEBUG, py ''Trying model: '' @ model),
         (INFO, py ''Successfully generated response using '' @ model)],
        [(model, messages)])"
  by (simp add: Let_def)

lemma try_models_raises:
  "create model messages = Raises e \<Longrightarrow>
     try_models create messages (model # rest) lst =
       after_attempt
         [(DEBUG, py ''Trying model: '' @ model),
          (WARNING, py ''Model '' @ model @ py '' failed: '' @ take 100 (exc_str e))]
         (model, messages) (try_models create messages rest (Some e))"
  by (simp add: Let_def)

lemma try_models_Nil:
  "try_models create messages [] lst =
     (Inl (PyException Exception
             (py ''All AI models failed. Last error: '' @ str_of_last lst) lst),
      [(ERROR, py ''All AI models failed. Last error: '' @ str_of_last lst)], [])"
  by (simp add: Let_def)

declare try_models.simps [simp del]

subsection \<open>The loop as a whole\<close>

text \<open>
  The backend is called for a prefix of the model list, in the order of the list, once
  for each identifier of the prefix, always with the same message list.
\<close>

lemma try_models_calls:
  "\<exists>k \<le> length models.
     snd (snd (try_models create messages models lst)) =
       map (\<lambda>model. (model, messages)) (take k models)"
proof (induction models arbitrary: lst)
  case Nil
  then show ?case by (simp add: try_models_Nil)
next
  case (Cons model rest)
  show ?case
  proof (cases "create model messages")
    case (Raises e)
    from Cons.IH [of "Some e"] obtain k where
      k: "k \<le> length rest"
        "snd (snd (try_models create messages rest (Some e))) =
           map (\<lambda>model. (model, messages)) (take k rest)"
      by blast
    then show ?thesis
      using Raises
      by (intro exI [of _ "Suc k"])
         (simp add: try_models_raises)
  next
    case (Returns r)
    show ?thesis
    proof (cases "truthy r \<and> isinstance_str r")
      case True
      then obtain s where "r = PyStr s" "s \<noteq> []"
        by (cases r) auto
      with Returns show ?thesis
        by (intro exI [of _ "Suc 0"]) (simp add: try_models_text)
    next
      case False
      from Cons.IH [of lst] obtain k where
        k: "k \<le> length rest"
          "snd (snd (try_models create messages rest lst)) =
             map (\<lambda>model. (model, messages)) (take k rest)"
        by blast
      then show ?thesis
        using try_models_nontext [of create model messages r rest lst, OF Returns False]
        by (intro exI [of _ "Suc k"]) simp
    qed
  qed
qed

text \<open>
  When no attempt raises and none returns text, the loop ends with the aggregate
  exception, the starting value of \<open>last_exception\<close> as its cause, and no
  \<open>WARNING\<close> record.
\<close>

lemma try_models_all_nontext:
  "\<forall>model \<in> set models. \<exists>r. create model messages = Returns r \<and> \<not> (truthy r \<and> isinstance_str r) \<Longrightarrow>
     try_models create messages models lst =
       (Inl (PyException Exception
               (py ''All AI models failed. Last error: '' @ str_of_last lst) lst),
        map (\<lambda>model. (DEBUG, py ''Trying model: '' @ model)) models @
          [(ERROR, py ''All AI models failed. Last error: '' @ str_of_last lst)],
        map (\<lambda>model. (model, messages)) models)"
proof (induction models)
  case Nil
  then show ?case by (simp add: try_models_Nil)
next
  case (Cons model rest)
  then obtain r where r: "create model messages = Returns r" "\<not> (truthy r \<and> isinstance_str r)"
    by auto
  from Cons have "try_models create messages rest lst =
       (Inl (PyException Exception
               (py ''All AI models failed. Last error: '' @ str_of_last lst) lst),
        map (\<lambda>model. (DEBUG, py ''Trying model: '' @ model)) rest @
          [(ERROR, py ''All AI models failed. Last error: '' @ str_of_last lst)],
        map (\<lambda>model. (model, messages)) rest)"
    by simp
  then show ?case
    by (simp add: try_models_nontext [of create model messages r rest lst, OF r] after_attempt_def)
qed

text \<open>
  \<open>_call_g4f\<close> raises exactly when no identifier of the list returns a non-empty
  string.
\<close>

lemma try_models_fails_raises:
  "isl (fst (try_models create messages models lst)) \<longleftrightarrow>
     (\<forall>model \<in> set models. \<forall>s. create model messages = Returns (PyStr s) \<longrightarrow> s = [])"
proof (induction models arbitrary: lst)
  case Nil
  then show ?case by (simp add: try_models_Nil)
next
  case (Cons model rest)
  show ?case
  proof (cases "create model messages")
    case (Raises e)
    then show ?thesis
      using Cons.IH [of "Some e"]
      by (simp add: try_models_raises)
  next
    case (Returns r)
    show ?thesis
    proof (cases "truthy r \<and> isinstance_str r")
      case True
      then obtain s where "r = PyStr s" "s \<noteq> []"
        by (cases r) auto
      with Returns show ?thesis
        by (auto simp: try_models_text)
    next
      case False
      then have "\<forall>s. r = PyStr s \<longrightarrow> s = []"
        by (cases r) auto
      then show ?thesis
        using Cons.IH [of lst] Returns
        by (simp add: try_models_nontext [of create model messages r rest lst, OF Returns False])
    qed
  qed
qed


text \<open>
  When the models before one that returns text all fail, the text of that model is
  returned, and the models after it are never called.
\<close>

lemma try_models_skips_failures:
  assumes "\<forall>model \<in> set pre. \<forall>s. create model messages = Returns (PyStr s) \<longrightarrow> s = []"
    and "create model messages = Returns (PyStr s)" and "s \<noteq> []"
  shows "fst (try_models create messages (pre @ model # post) lst) = Inr s \<and>
         snd (snd (try_models create messages (pre @ model # post) lst)) =
           map (\<lambda>model. (model, messages)) (pre @ [model])"
  using assms(1)
proof (induction pre arbitrary: lst)
  case Nil
  show ?case
    using assms(2,3) by (simp add: try_models_text)
next
  case (Cons p pre)
  show ?case
  proof (cases "create p messages")
    case (Raises e)
    with Cons show ?thesis
      by (simp add: try_models_raises)
  next
    case (Returns r)
    with Cons.prems have "\<not> (truthy r \<and> isinstance_str r)"
      by (cases r) auto
    from try_models_nontext [of create p messages r _ lst, OF Returns this] Cons
    show ?thesis by simp
  qed
qed

text \<open>
  When the last identifier raises and no identifier returns text, the aggregate
  exception carries the exception of the last identifier as its cause.
\<close>

lemma try_models_last_raises:
  assumes "\<forall>model \<in> set models. \<forall>s. create model messages = Returns (PyStr s) \<longrightarrow> s = []"
    and "create model messages = Raises e"
  shows "fst (try_models create messages (models @ [model]) lst) =
           Inl (PyException Exception
                  (py ''All AI models failed. Last error: '' @ exc_str e) (Some e))"
  using assms(1)
proof (induction models arbitrary: lst)
  case Nil
  show ?case
    using assms(2) by (simp add: try_models_raises try_models_Nil)
next
  case (Cons p models)
  show ?case
  proof (cases "create p messages")
    case (Raises e')
    with Cons show ?thesis
      by (simp add: try_models_raises)
  next
    case (Returns r)
    with Cons.prems have "\<not> (truthy r \<and> isinstance_str r)"
      by (cases r) auto
    from try_models_nontext [of create p messages r _ lst, OF Returns this] Cons
    show ?thesis by simp
  qed
qed

text \<open>A raised error, a timeout among them, is logged as a \<open>WARNING\<close>.\<close>

lemma try_models_warns_on_raise:
  "create model messages = Raises e \<Longrightarrow>
     (WARNING, py ''Model '' @ model @ py '' failed: '' @ take 100 (exc_str e))
       \<in> set (fst (snd (try_models create messages (model # rest) lst)))"
  by (simp add: try_models_raises)

text \<open>A first model that times out: the failure is logged and the second model answers.\<close>

lemma call_g4f_timeout:
  "call_g4f backend_timeout messages =
     (Inr (py ''Hello''),
      [(DEBUG, py ''Trying model: gpt-3.5-turbo''),
       (WARNING, py ''Model gpt-3.5-turbo failed: Request timed out''),
       (DEBUG, py ''Trying model: gpt-4''),
       (INFO, py ''Successfully generated response using gpt-4'')],
      [(py ''gpt-3.5-turbo'', messages), (py ''gpt-4'', messages)])"
  by (simp add: call_g4f_def available_models_def backend_timeout_def try_models.simps
      Let_def after_attempt_def py_def)

text \<open>
  C3. The claim: every model identifier is attempted in order and at most once, every
  failed attempt (a timeout, a raised error, a non-text result) is logged before the
  next identifier is tried, and a later success is returned without an error. The
  order, the single attempt, the fallback and the \<open>WARNING\<close> record of a raised
  error are \<open>try_models_calls\<close>, \<open>try_models_skips_failures\<close>,
  \<open>try_models_warns_on_raise\<close> and \<open>call_g4f_timeout\<close>. A non-text result is not logged: with a first model
  that returns \<open>None\<close> and a second that answers, the records are the two
  \<open>Trying model\<close> lines and the success line, and nothing says that
  \<open>gpt-3.5-turbo\<close> failed.
\<close>

theorem nontext_failure_not_logged:
  "call_g4f backend_second messages =
     (Inr (py ''Hello''),
      [(DEBUG, py ''Trying model: gpt-3.5-turbo''),
       (DEBUG, py ''Trying model: gpt-4''),
       (INFO, py ''Successfully generated response using gpt-4'')],
      [(py ''gpt-3.5-turbo'', messages), (py ''gpt-4'', messages)])"
  by (simp add: call_g4f_def available_models_def backend_second_def try_models.simps
      Let_def after_attempt_def py_def)

text \<open>
  C4. The claim: when every model identifier fails, \<open>_call_g4f\<close> raises an
  aggregate exception that carries the last underlying failure, and
  \<open>generate_response\<close> returns the apology instead of raising. With a backend that
  returns \<open>None\<close> for every identifier, the aggregate exception is raised and the
  apology is returned, but the exception carries no cause and its text ends in
  \<open>Last error: None\<close>.
\<close>

theorem all_nontext_has_no_cause:
  "call_g4f backend_none messages =
     (Inl (PyException Exception (py ''All AI models failed. Last error: None'') None),
      [(DEBUG, py ''Trying model: gpt-3.5-turbo''),
       (DEBUG, py ''Trying model: gpt-4''),
       (DEBUG, py ''Trying model: gpt-4-turbo''),
       (ERROR, py ''All AI models failed. Last error: None'')],
      [(py ''gpt-3.5-turbo'', messages), (py ''gpt-4'', messages),
       (py ''gpt-4-turbo'', messages)]) \<and>
   fst (generate_response backend_none message history) = apology"
  by (simp add: generate_response_def call_g4f_def available_models_def backend_none_def
      try_models.simps Let_def after_attempt_def py_def)

text \<open>
  C10. An attempt that returns without raising, but returns something that is not a
  non-empty string, adds only its \<open>Trying model\<close> record to the log and leaves
  \<open>last_exception\<close> as it was before the loop goes on with the next identifier.
  So when every identifier returns such a result, the aggregate exception has no
  cause, and the log holds no \<open>WARNING\<close> record.
\<close>

theorem nontext_attempt_is_silent:
  "(create model messages = Returns r \<and> \<not> (truthy r \<and> isinstance_str r) \<longrightarrow>
      try_models create messages (model # rest) lst =
        after_attempt [(DEBUG, py ''Trying model: '' @ model)] (model, messages)
          (try_models create messages rest lst)) \<and>
   ((\<forall>model \<in> set available_models.
        \<exists>r. create model messages = Returns r \<and> \<not> (truthy r \<and> isinstance_str r)) \<longrightarrow>
      call_g4f create messages =
        (Inl (PyException Exception (py ''All AI models failed. Last error: None'') None),
         [(DEBUG, py ''Trying model: gpt-3.5-turbo''),
          (DEBUG, py ''Trying model: gpt-4''),
          (DEBUG, py ''Trying model: gpt-4-turbo''),
          (ERROR, py ''All AI models failed. Last error: None'')],
         [(py ''gpt-3.5-turbo'', messages), (py ''gpt-4'', messages),
          (py ''gpt-4-turbo'', messages)]))"
proof (intro conjI impI)
  assume "create model messages = Returns r \<and> \<not> (truthy r \<and> isinstance_str r)"
  then show "try_models create messages (model # rest) lst =
        after_attempt [(DEBUG, py ''Trying model: '' @ model)] (model, messages)
          (try_models create messages rest lst)"
    by (simp add: try_models_nontext)
next
  assume "\<forall>model \<in> set available_models.
        \<exists>r. create model messages = Returns r \<and> \<not> (truthy r \<and> isinstance_str r)"
  from try_models_all_nontext [of available_models create messages None, OF this]
  show "call_g4f create messages =
        (Inl (PyException Exception (py ''All AI models failed. Last error: None'') None),
         [(DEBUG, py ''Trying model: gpt-3.5-turbo''),
          (DEBUG, py ''Trying model: gpt-4''),
          (DEBUG, py ''Trying model: gpt-4-turbo''),
          (ERROR, py ''All AI models failed. Last error: None'')],
         [(py ''gpt-3.5-turbo'', messages), (py ''gpt-4'', messages),
          (py ''gpt-4-turbo'', messages)])"
    by (simp add: call_g4f_def available_models_def py_def)
qed

theorem nontext_attempt_is_silent_witness:
  "backend_empty (py ''gpt-3.5-turbo'') [] = Returns (PyStr []) \<and>
   backend_empty (py ''gpt-4'') [] = Returns (PyStr []) \<and>
   backend_empty (py ''gpt-4-turbo'') [] = Returns (PyStr []) \<and>
   \<not> (truthy (PyStr []) \<and> isinstance_str (PyStr [])) \<and>
   fst (call_g4f backend_empty []) =
     Inl (PyException Exception (py ''All AI models failed. Last error: None'') None) \<and>
   try_models backend_empty [] [py ''gpt-4'']
       (Some (PyException Exception (py ''Request timed out'') None)) =
     after_attempt [(DEBUG, py ''Trying model: '' @ py ''gpt-4'')] (py ''gpt-4'', [])
       (try_models backend_empty [] [] (Some (PyException Exception (py ''Request timed out'') None)))"
  using nontext_attempt_is_silent [of backend_empty "py ''gpt-4''" "[]" "PyStr []" "[]"
      "Some (PyException Exception (py ''Request timed out'') None)"]
  by (simp add: backend_empty_def)

section \<open>Properties of \<open>strip\<close>\<close>

lemma strip_all_space: "strip s = [] \<longleftrightarrow> (\<forall>c \<in> set s. py_isspace c)"
proof
  assume "\<forall>c \<in> set s. py_isspace c"
  then have d: "dropWhile py_isspace s = []"
    by simp
  show "strip s = []"
    unfolding strip_def d by simp
next
  assume "strip s = []"
  then have all: "\<forall>c \<in> set (dropWhile py_isspace s). py_isspace c"
    by (simp add: strip_def)
  have "dropWhile py_isspace s = []"
  proof (rule ccontr)
    assume ne: "dropWhile py_isspace s \<noteq> []"
    then have "\<not> py_isspace (hd (dropWhile py_isspace s))"
      by (rule hd_dropWhile)
    moreover from ne have "hd (dropWhile py_isspace s) \<in> set (dropWhile py_isspace s)"
      by simp
    ultimately show False
      using all by blast
  qed
  then show "\<forall>c \<in> set s. py_isspace c"
    by simp
qed

lemma strip_core:
  assumes "\<forall>c \<in> set ws1. py_isspace c" and "\<forall>c \<in> set ws2. py_isspace c"
    and "core \<noteq> []" and "\<not> py_isspace (hd core)" and "\<not> py_isspace (last core)"
  shows "strip (ws1 @ core @ ws2) = core"
proof -
  from assms(3,4) have "dropWhile py_isspace (core @ ws2) = core @ ws2"
    by (cases core) auto
  moreover from assms(1) have
    "dropWhile py_isspace (ws1 @ core @ ws2) = dropWhile py_isspace (core @ ws2)"
    by (intro dropWhile_append2) simp
  ultimately have front: "dropWhile py_isspace (ws1 @ core @ ws2) = core @ ws2"
    by simp
  from assms(3,5) have "dropWhile py_isspace (rev core) = rev core"
    by (cases core rule: rev_cases) auto
  moreover from assms(2) have
    "dropWhile py_isspace (rev ws2 @ rev core) = dropWhile py_isspace (rev core)"
    by (intro dropWhile_append2) simp
  ultimately have "dropWhile py_isspace (rev (core @ ws2)) = rev core"
    by simp
  with front show ?thesis
    by (simp add: strip_def)
qed


section \<open>Properties of \<open>generate_response\<close> and the handler\<close>


lemma generate_response_apology:
  "fst (call_g4f create (build_messages message history)) = Inl e \<Longrightarrow>
     fst (generate_response create message history) = apology"
  by (auto simp: generate_response_def Let_def split: prod.splits sum.splits)

lemma generate_response_calls:
  "snd (snd (generate_response create message history)) =
     snd (snd (call_g4f create (build_messages message history)))"
  by (auto simp: generate_response_def Let_def split: prod.splits sum.splits)

text \<open>
  \<open>generate_response\<close> returns a string whatever the backend does; when no
  identifier returns text, the string is the apology.
\<close>

lemma generate_response_all_fail:
  assumes "\<forall>model \<in> set available_models.
             \<forall>s. create model (build_messages message history) = Returns (PyStr s) \<longrightarrow> s = []"
  shows "fst (generate_response create message history) = apology"
proof -
  from assms have "isl (fst (call_g4f create (build_messages message history)))"
    by (simp add: call_g4f_def try_models_fails_raises)
  then obtain e where "fst (call_g4f create (build_messages message history)) = Inl e"
    by (cases "fst (call_g4f create (build_messages message history))") auto
  then show ?thesis
    by (rule generate_response_apology)
qed

text \<open>
  C6. When the inbound message has no text, or a text made of whitespace only (the
  empty text included), the handler returns at once: the database is the one it was
  given, nothing is sent, nothing is logged and the backend is not called.
\<close>

theorem message_handler_ignores_blank:
  assumes "msg_text message = None \<or>
           (\<exists>s. msg_text message = Some s \<and> (\<forall>c \<in> set s. py_isspace c))"
  shows "message_handler tr create clk db message =
           \<lparr>r_raised = None, r_db = db, r_sent = [], r_log = [], r_calls = []\<rparr>"
  using assms
  by (auto simp: message_handler_def Let_def strip_all_space split: option.splits)


theorem message_handler_ignores_blank_witness:
  "msg_text blank_message = Some [32, 10, 12288, 9] \<and>
   py_isspace 32 \<and> py_isspace 10 \<and> py_isspace 12288 \<and> py_isspace 9 \<and>
   message_handler transport_ok backend_hello sample_clock sample_db blank_message =
     \<lparr>r_raised = None, r_db = sample_db, r_sent = [], r_log = [], r_calls = []\<rparr>"
  using message_handler_ignores_blank [of blank_message transport_ok backend_hello sample_clock sample_db]
  by (simp add: blank_message_def py_isspace_def)

subsection \<open>Storing and sending the reply\<close>

lemma find_fresh_rowid:
  "find (\<lambda>m. m_id m = next_rowid seq (map m_id ms)) ms = None"
proof -
  have "\<forall>m \<in> set ms. m_id m \<noteq> next_rowid seq (map m_id ms)"
    using next_rowid_fresh [of _ "map m_id ms" seq] by fastforce
  then show ?thesis
    by (simp add: find_None_iff)
qed

lemma create_message_ok:
  assumes "is_connected db" and "role = py ''user'' \<or> role = py ''assistant''"
    and "row = \<lparr>m_id = next_rowid (messages_seq db) (map m_id (messages_tbl db)),
                  m_user_id = user_id, m_role = role, m_content = content, m_created_at = now\<rparr>"
  shows "create_message db user_id role content now =
           Inr (Some row, db\<lparr>messages_tbl := messages_tbl db @ [row],
                              messages_seq := m_id row, last_insert_rowid := m_id row\<rparr>)"
  using assms
  by (auto simp: create_message_def insert_message_def select_last_inserted_message_def
      Let_def find_None_append find_fresh_rowid)



lemma call_g4f_hello:
  "call_g4f backend_hello messages =
     (Inr (py ''  Hello! '' @ [10]),
      [(DEBUG, py ''Trying model: gpt-3.5-turbo''),
       (INFO, py ''Successfully generated response using gpt-3.5-turbo'')],
      [(py ''gpt-3.5-turbo'', messages)])"
  by (simp add: call_g4f_def available_models_def backend_hello_def try_models.simps
      Let_def py_def)

lemma strip_hello: "strip (py ''  Hello! '' @ [10]) = py ''Hello!''"
  by (simp add: strip_def py_def py_isspace_def)


text \<open>
  C2. The claim: for the text \<open>Hi\<close> from a new identity, one user row is created,
  one \<open>user\<close> message \<open>Hi\<close> is stored, the backend receives the system prompt
  followed by \<open>Hi\<close> once, the reply is stored as an \<open>assistant\<close> message and
  sent. The run below, on the empty database, does all of that except for the prompt:
  the handler stores \<open>Hi\<close> before it reads the history, so the history already
  holds it, and \<open>generate_response\<close> appends the current message again. The
  backend receives \<open>Hi\<close> twice.
\<close>

theorem hi_from_new_identity:
  "message_handler transport_ok backend_hello sample_clock fresh_db hi_message =
     \<lparr>r_raised = None,
      r_db =
        \<lparr>is_connected = True,
         users_tbl =
           [\<lparr>u_id = 1, u_telegram_id = 42, u_username = Some (py ''ann''), u_created_at = 100\<rparr>],
         messages_tbl =
           [\<lparr>m_id = 1, m_user_id = 1, m_role = py ''user'', m_content = py ''Hi'',
             m_created_at = 100\<rparr>,
            \<lparr>m_id = 2, m_user_id = 1, m_role = py ''assistant'', m_content = py ''Hello!'',
             m_created_at = 103\<rparr>],
         users_seq = 1, messages_seq = 2, last_insert_rowid = 2\<rparr>,
      r_sent = [SendChatAction 7, Answer (py ''Hello!'')],
      r_log =
        [(DEBUG, py ''Trying model: gpt-3.5-turbo''),
         (INFO, py ''Successfully generated response using gpt-3.5-turbo''),
         (DEBUG, py ''Generated response: Hello!...'')],
      r_calls =
        [(py ''gpt-3.5-turbo'',
          [\<lparr>cm_role = py ''system'', cm_content = system_prompt\<rparr>,
           \<lparr>cm_role = py ''user'', cm_content = py ''Hi''\<rparr>,
           \<lparr>cm_role = py ''user'', cm_content = py ''Hi''\<rparr>])]\<rparr>"
  by (simp add: message_handler_def hi_message_def fresh_db_def sample_clock_def transport_ok_def
      get_or_create_user_def select_user_by_telegram_id_def insert_user_def
      create_message_def insert_message_def select_last_inserted_message_def
      get_conversation_history_def select_history_def sql_limit_def history_of_def
      fits_int64_def next_rowid_def reply_def generate_response_def build_messages_def
      call_g4f_hello strip_hello Let_def)
    (simp add: py_def strip_def py_isspace_def)


text \<open>
  The same for every backend, transport and clock: for a new identity with no message
  stored under the internal id it receives, the prompt holds the inbound text twice.
\<close>

lemma reply_calls:
  "r_calls (on_error tr e r) = r_calls r"
  "r_calls (reply tr create clk db user_id txt formatted_history sent) =
     snd (snd (call_g4f create (build_messages txt (Some formatted_history))))"
proof -
  show c: "r_calls (on_error tr e r) = r_calls r" for e r
    by (simp add: on_error_def Let_def split: option.splits)
  obtain a log calls where
    g: "generate_response create txt (Some formatted_history) = (a, log, calls)"
    by (cases "generate_response create txt (Some formatted_history)") auto
  then have "calls = snd (snd (call_g4f create (build_messages txt (Some formatted_history))))"
    using generate_response_calls [of create "txt" "Some formatted_history"] by simp
  then show "r_calls (reply tr create clk db user_id txt formatted_history sent) =
     snd (snd (call_g4f create (build_messages txt (Some formatted_history))))"
    using g by (auto simp: reply_def Let_def c split: sum.splits option.splits prod.splits)
qed

lemma history_single:
  assumes "is_connected db" and "count_for db uid = 0" and "fits_int64 uid"
    and "row = \<lparr>m_id = i, m_user_id = uid, m_role = role, m_content = content, m_created_at = now\<rparr>"
  shows "get_conversation_history
           (db\<lparr>messages_tbl := messages_tbl db @ [row], messages_seq := i, last_insert_rowid := i\<rparr>)
           uid 10 = Inr [\<lparr>h_role = role, h_content = content, h_created_at = now\<rparr>]"
  using assms
  by (simp add: get_conversation_history_def select_history_def count_for_def sql_limit_def
      history_of_def fits_int64_def)

lemma new_identity_prompt:
  assumes "is_connected db"
    and "find (\<lambda>u. u_telegram_id u = tg_id sender) (users_tbl db) = None"
    and "count_for db (next_rowid (users_seq db) (map u_id (users_tbl db))) = 0"
    and "fits_int64 (next_rowid (users_seq db) (map u_id (users_tbl db)))"
    and "msg_text message = Some txt" and "strip txt \<noteq> []"
    and "from_user message = Some sender"
    and "chat_action_raises tr = None"
  shows "r_calls (message_handler tr create clk db message) =
           snd (snd (call_g4f create
             [\<lparr>cm_role = py ''system'', cm_content = system_prompt\<rparr>,
              \<lparr>cm_role = py ''user'', cm_content = txt\<rparr>,
              \<lparr>cm_role = py ''user'', cm_content = txt\<rparr>]))"
proof -
  let ?uid = "next_rowid (users_seq db) (map u_id (users_tbl db))"
  let ?u = "\<lparr>u_id = ?uid, u_telegram_id = tg_id sender,
             u_username = tg_username sender, u_created_at = now_user clk\<rparr>"
  let ?db1 = "db\<lparr>users_tbl := users_tbl db @ [?u], users_seq := u_id ?u,
                  last_insert_rowid := u_id ?u\<rparr>"
  let ?row = "\<lparr>m_id = next_rowid (messages_seq ?db1) (map m_id (messages_tbl ?db1)),
               m_user_id = ?uid, m_role = py ''user'', m_content = txt,
               m_created_at = now_inbound clk\<rparr>"
  let ?db2 = "?db1\<lparr>messages_tbl := messages_tbl ?db1 @ [?row],
                    messages_seq := m_id ?row, last_insert_rowid := m_id ?row\<rparr>"
  have nonempty: "txt \<noteq> []"
    using assms(6) by (auto simp: strip_def)
  have user: "get_or_create_user db (tg_id sender) (tg_username sender) (now_user clk) =
      Inr (Some ?u, ?db1)"
    by (rule get_or_create_user_new [OF assms(1,2)]) simp
  have c1: "is_connected ?db1"
    using assms(1) by simp
  have stored: "create_message ?db1 ?uid (py ''user'') txt (now_inbound clk) =
      Inr (Some ?row, ?db2)"
    by (rule create_message_ok [OF c1]) simp_all
  have "count_for ?db1 ?uid = 0"
    using assms(3) by (simp add: count_for_def)
  from history_single [OF c1 this assms(4), of ?row "m_id ?row" "py ''user''" "txt" "now_inbound clk"]
  have hist: "get_conversation_history ?db2 ?uid 10 =
      Inr [\<lparr>h_role = py ''user'', h_content = txt, h_created_at = now_inbound clk\<rparr>]"
    by simp
  show ?thesis
    using assms(5,6,7,8) nonempty user stored hist
    by (simp add: message_handler_def Let_def reply_calls build_messages_def)
qed

subsection \<open>Two messages within one second\<close>

text \<open>
  When the reply is stored in the second of the inbound text and the next text arrives
  in that second too, the three messages come back in rowid order. The handler
  reverses them under the comment \<open>Oldest first\<close>, and the backend receives the
  conversation newest first.
\<close>

lemma first_run_same_second:
  "r_db (message_handler transport_ok backend_hello same_second_clock fresh_db hi_message) =
     \<lparr>is_connected = True,
      users_tbl =
        [\<lparr>u_id = 1, u_telegram_id = 42, u_username = Some (py ''ann''), u_created_at = 100\<rparr>],
      messages_tbl =
        [\<lparr>m_id = 1, m_user_id = 1, m_role = py ''user'', m_content = py ''Hi'',
          m_created_at = 100\<rparr>,
         \<lparr>m_id = 2, m_user_id = 1, m_role = py ''assistant'', m_content = py ''Hello!'',
          m_created_at = 100\<rparr>],
      users_seq = 1, messages_seq = 2, last_insert_rowid = 2\<rparr>"
  by (simp add: message_handler_def hi_message_def fresh_db_def same_second_clock_def
      transport_ok_def get_or_create_user_def select_user_by_telegram_id_def insert_user_def
      create_message_def insert_message_def select_last_inserted_message_def
      get_conversation_history_def select_history_def sql_limit_def history_of_def
      fits_int64_def next_rowid_def reply_def generate_response_def build_messages_def
      call_g4f_hello strip_hello Let_def)
    (simp add: py_def strip_def py_isspace_def)

lemma second_run_same_second:
  "r_calls (message_handler transport_ok backend_hello same_second_clock
       (r_db (message_handler transport_ok backend_hello same_second_clock fresh_db hi_message))
       again_message) =
     [(py ''gpt-3.5-turbo'',
       [\<lparr>cm_role = py ''system'', cm_content = system_prompt\<rparr>,
        \<lparr>cm_role = py ''user'', cm_content = py ''Again''\<rparr>,
        \<lparr>cm_role = py ''assistant'', cm_content = py ''Hello!''\<rparr>,
        \<lparr>cm_role = py ''user'', cm_content = py ''Hi''\<rparr>,
        \<lparr>cm_role = py ''user'', cm_content = py ''Again''\<rparr>])]"
  unfolding first_run_same_second
  by (simp add: message_handler_def again_message_def same_second_clock_def
      transport_ok_def get_or_create_user_def select_user_by_telegram_id_def insert_user_def
      create_message_def insert_message_def select_last_inserted_message_def
      get_conversation_history_def select_history_def sql_limit_def history_of_def
      fits_int64_def next_rowid_def reply_def generate_response_def build_messages_def
      call_g4f_hello strip_hello Let_def)
    (simp add: py_def strip_def py_isspace_def)

end
